theory Spec2Isabelle
  imports Main
begin

section \<open>JavaScript values\<close>

text \<open>
  The values that travel through \<^verbatim>\<open>MistEthereumProvider.js\<close>: request ids, tokens,
  transport errors, responses and validation results. \<open>JError\<close> stands for every instance
  of \<^verbatim>\<open>Error\<close> (the argument is its message); \<open>JNum\<close> carries the integral numbers only.
\<close>

datatype jsval =
    JUndefined
  | JNull
  | JBool bool
  | JNum int
  | JStr string
  | JError string
  | JArray "jsval list"
  | JObject "(string \<times> jsval) list"

text \<open>\<^verbatim>\<open>!error\<close> is the negation of JavaScript's truthiness.\<close>

fun truthy :: "jsval \<Rightarrow> bool" where
  "truthy JUndefined = False"
| "truthy JNull = False"
| "truthy (JBool b) = b"
| "truthy (JNum n) = (n \<noteq> 0)"
| "truthy (JStr s) = (s \<noteq> [])"
| "truthy (JError m) = True"
| "truthy (JArray xs) = True"
| "truthy (JObject kvs) = True"

text \<open>\<^verbatim>\<open>validationResult instanceof Error\<close>.\<close>

fun instanceofError :: "jsval \<Rightarrow> bool" where
  "instanceofError (JError m) = True"
| "instanceofError v = False"

text \<open>The \<^verbatim>\<open>TypeError\<close> that a property read on \<^verbatim>\<open>null\<close> or \<^verbatim>\<open>undefined\<close> throws.\<close>

definition TypeError :: jsval where
  "TypeError = JError ''TypeError: cannot read properties of null or undefined''"

text \<open>
  A property read \<^verbatim>\<open>v.name\<close>, with \<open>Inl\<close> for the exception. The source reads two names
  only, \<^verbatim>\<open>result\<close> and \<^verbatim>\<open>id\<close>; neither is a built-in property of a number, a string, a
  boolean, an array or an error, so the read yields \<^verbatim>\<open>undefined\<close> there. An object is
  the list of its own properties, looked up from the front.
\<close>

fun getProp :: "jsval \<Rightarrow> string \<Rightarrow> jsval + jsval" where
  "getProp JUndefined name = Inl TypeError"
| "getProp JNull name = Inl TypeError"
| "getProp (JObject kvs) name =
     Inr (case map_of kvs name of None \<Rightarrow> JUndefined | Some v \<Rightarrow> v)"
| "getProp v name = Inr JUndefined"

section \<open>The transport handle\<close>

text \<open>
  The five handlers the provider inherits (\<^verbatim>\<open>this.onMessage\<close>, ...). A function value is
  either such a method as it sits on the provider, or the result of one call of
  \<^verbatim>\<open>.bind(this)\<close>: every call of \<^verbatim>\<open>bind\<close> allocates a new function object, numbered here
  by the allocation counter, and a bound function is identical to nothing but itself.
\<close>

datatype handler = onMessage | onError | onConnect | onReady | onClose

datatype fn = Method handler | Bound handler nat

fun target :: "fn \<Rightarrow> handler" where
  "target (Method h) = h"
| "target (Bound h k) = h"

text \<open>
  The connection: its listener registry, in registration order, and the answer its
  \<^verbatim>\<open>isConnected()\<close> query gives at present.
\<close>

record connection =
  listeners :: "(string \<times> fn) list"
  isConnected :: bool

text \<open>
  Modelled from the spec: the transport's event subscription and unsubscription, which
  belong to the external transport handle. \<^verbatim>\<open>on\<close> appends a listener; \<^verbatim>\<open>removeListener\<close>
  takes away the most recently added listener of that event that is identical to the
  given function (removal by function identity, section 9); an event invokes the
  listeners registered for it, in order.
\<close>

definition connection_on :: "string \<Rightarrow> fn \<Rightarrow> connection \<Rightarrow> connection" where
  "connection_on name f c = c\<lparr>listeners := listeners c @ [(name, f)]\<rparr>"

definition connection_removeListener :: "string \<Rightarrow> fn \<Rightarrow> connection \<Rightarrow> connection" where
  "connection_removeListener name f c =
     c\<lparr>listeners := rev (remove1 (name, f) (rev (listeners c)))\<rparr>"

definition connection_emit :: "connection \<Rightarrow> string \<Rightarrow> fn list" where
  "connection_emit c name = map snd (filter (\<lambda>l. fst l = name) (listeners c))"

section \<open>The provider and its collaborators\<close>

text \<open>
  A payload is a request object (its own properties) or, for a batch, an array of
  request objects: the parameter is documented as \<^verbatim>\<open>@param {Object} payload\<close>, and
  \<open>send\<close> and \<open>sendBatch\<close> pass nothing else, so \<^verbatim>\<open>null\<close> and \<^verbatim>\<open>undefined\<close> are no
  payloads. \<^verbatim>\<open>payload.id\<close> on an array is \<^verbatim>\<open>undefined\<close>. A response, in contrast, is
  whatever the transport hands to the callback: any value.
\<close>

datatype payload = Request "(string \<times> jsval) list" | Batch "jsval list"

fun payload_id :: "payload \<Rightarrow> jsval" where
  "payload_id (Request kvs) = (case map_of kvs ''id'' of None \<Rightarrow> JUndefined | Some v \<Rightarrow> v)"
| "payload_id (Batch entries) = JUndefined"

text \<open>The calls the provider makes on its collaborators and on its promise, as they happen.\<close>

datatype call =
    On string fn
  | RemoveListener string fn
  | SuperRemoveAllListeners jsval
  | BeforeExecution nat
  | ToPayload jsval jsval
  | Send payload
  | Resolve jsval
  | Reject jsval

text \<open>
  The state: the connection, the provider's own event emitter (the superclass, kept
  abstract), the allocation counter of function objects, the id counter of the payload
  mapper, and the trace of calls made so far.
\<close>

record 'e state =
  connection :: connection
  emitter :: 'e
  nextFunction :: nat
  messageId :: int
  trace :: "call list"

text \<open>
  What the provider imports or inherits from other files, taken as parameters: the
  five category tokens of \<^verbatim>\<open>AbstractSocketProvider\<close> (strings), its
  \<^verbatim>\<open>removeAllListeners\<close>, \<^verbatim>\<open>JsonRpcMapper.toPayload\<close> (the request object it builds
  from its id counter, the method and the parameters) and
  \<^verbatim>\<open>JsonRpcResponseValidator.validate\<close>. Each is taken to return: an exception raised
  inside a collaborator is not part of the model.
\<close>

record 'e deps =
  SOCKET_MESSAGE :: string
  SOCKET_ERROR :: string
  SOCKET_CONNECT :: string
  SOCKET_READY :: string
  SOCKET_CLOSE :: string
  super_removeAllListeners :: "jsval \<Rightarrow> 'e \<Rightarrow> 'e"
  toPayload :: "int \<Rightarrow> jsval \<Rightarrow> jsval \<Rightarrow> (string \<times> jsval) list"
  validate :: "jsval \<Rightarrow> jsval"

definition log :: "call \<Rightarrow> 'e state \<Rightarrow> 'e state" where
  "log c s = s\<lparr>trace := trace s @ [c]\<rparr>"

text \<open>\<^verbatim>\<open>this.connection.on(name, this.h.bind(this))\<close>.\<close>

definition on_bound :: "string \<Rightarrow> handler \<Rightarrow> 'e state \<Rightarrow> 'e state" where
  "on_bound name h s =
     (let f = Bound h (nextFunction s) in
      log (On name f)
        (s\<lparr>connection := connection_on name f (connection s),
           nextFunction := Suc (nextFunction s)\<rparr>))"

text \<open>\<^verbatim>\<open>this.connection.removeListener(name, this.h)\<close>.\<close>

definition removeListener :: "string \<Rightarrow> handler \<Rightarrow> 'e state \<Rightarrow> 'e state" where
  "removeListener name h s =
     log (RemoveListener name (Method h))
       (s\<lparr>connection := connection_removeListener name (Method h) (connection s)\<rparr>)"

definition registerEventListeners :: "'e state \<Rightarrow> 'e state" where
  "registerEventListeners s =
     on_bound ''end'' onClose
       (on_bound ''connect'' onReady
         (on_bound ''connect'' onConnect
           (on_bound ''error'' onError
             (on_bound ''data'' onMessage s))))"

text \<open>The \<^verbatim>\<open>switch\<close> compares with \<^verbatim>\<open>===\<close>, case by case in the order written.\<close>

definition removeAllListeners :: "'e deps \<Rightarrow> jsval \<Rightarrow> 'e state \<Rightarrow> 'e state" where
  "removeAllListeners D event s =
     (let s1 =
        (if event = JStr (SOCKET_MESSAGE D) then removeListener ''data'' onMessage s
         else if event = JStr (SOCKET_ERROR D) then removeListener ''error'' onError s
         else if event = JStr (SOCKET_CONNECT D) then removeListener ''connect'' onConnect s
         else if event = JStr (SOCKET_READY D) then removeListener ''connect'' onConnect s
         else if event = JStr (SOCKET_CLOSE D) then removeListener ''end'' onClose s
         else s)
      in log (SuperRemoveAllListeners event)
           (s1\<lparr>emitter := super_removeAllListeners D event (emitter s1)\<rparr>))"

definition disconnect :: "'e state \<Rightarrow> bool \<times> 'e state" where
  "disconnect s = (True, s)"

definition connected :: "'e state \<Rightarrow> bool" where
  "connected s = isConnected (connection s)"

section \<open>Promises and request dispatch\<close>

text \<open>A promise settles once: a later \<^verbatim>\<open>resolve\<close> or \<^verbatim>\<open>reject\<close> changes nothing.\<close>

datatype promise = Pending | Resolved jsval | Rejected jsval

fun settle :: "promise \<Rightarrow> promise \<Rightarrow> promise" where
  "settle Pending q = q"
| "settle p q = p"

text \<open>
  The completion callback \<^verbatim>\<open>(error, response) => {...}\<close> that \<^verbatim>\<open>sendPayload\<close> hands to
  the transport, run on one firing.
\<close>

fun completion :: "'e deps \<Rightarrow> payload \<Rightarrow> jsval \<times> jsval \<Rightarrow> 'e state \<times> promise \<Rightarrow> 'e state \<times> promise" where
  "completion D payload (error, response) (s, p) =
     (let s1 = removeAllListeners D (payload_id payload) s in
      if \<not> truthy error then (log (Resolve response) s1, settle p (Resolved response))
      else (log (Reject error) s1, settle p (Rejected error)))"

text \<open>
  What the transport does with \<^verbatim>\<open>send(payload, callback)\<close> is its own business: it is given
  as the list of firings, the \<^verbatim>\<open>(error, response)\<close> pairs with which it invokes the
  callback, in order (none if it never calls back).
\<close>

fun firing :: "'e deps \<Rightarrow> payload \<Rightarrow> (jsval \<times> jsval) list \<Rightarrow> 'e state \<times> promise \<Rightarrow> 'e state \<times> promise" where
  "firing D payload [] sp = sp"
| "firing D payload (f # fs) sp = firing D payload fs (completion D payload f sp)"

definition sendPayload :: "'e deps \<Rightarrow> payload \<Rightarrow> (jsval \<times> jsval) list \<Rightarrow> 'e state \<Rightarrow> 'e state \<times> promise" where
  "sendPayload D payload firings s = firing D payload firings (log (Send payload) s, Pending)"

text \<open>The handler that \<^verbatim>\<open>send\<close> chains with \<^verbatim>\<open>.then\<close>; a \<^verbatim>\<open>throw\<close> inside it rejects.\<close>

definition validated :: "'e deps \<Rightarrow> jsval \<Rightarrow> promise" where
  "validated D response =
     (let validationResult = validate D response in
      if instanceofError validationResult then Rejected validationResult
      else (case getProp response ''result'' of
              Inl exn \<Rightarrow> Rejected exn
            | Inr v \<Rightarrow> Resolved v))"

fun then_validated :: "'e deps \<Rightarrow> promise \<Rightarrow> promise" where
  "then_validated D (Resolved response) = validated D response"
| "then_validated D (Rejected e) = Rejected e"
| "then_validated D Pending = Pending"

text \<open>\<^verbatim>\<open>JsonRpcMapper.toPayload(method, parameters)\<close>: the call and the step of the id counter.\<close>

definition mapped :: "'e deps \<Rightarrow> jsval \<Rightarrow> jsval \<Rightarrow> 'e state \<Rightarrow> (string \<times> jsval) list \<times> 'e state" where
  "mapped D method parameters s =
     (toPayload D (messageId s) method parameters,
      log (ToPayload method parameters) (s\<lparr>messageId := messageId s + 1\<rparr>))"

definition send :: "'e deps \<Rightarrow> jsval \<Rightarrow> jsval \<Rightarrow> (jsval \<times> jsval) list \<Rightarrow> 'e state \<Rightarrow> 'e state \<times> promise" where
  "send D method parameters firings s =
     (let (request, s1) = mapped D method parameters s;
          (s2, p) = sendPayload D (Request request) firings s1
      in (s2, then_validated D p))"

text \<open>
  A method descriptor is a mutable object: \<^verbatim>\<open>rpcMethod\<close>, \<^verbatim>\<open>parameters\<close> and its own
  \<^verbatim>\<open>beforeExecution\<close> hook, which given the module instance rewrites the two fields of
  the object it is called on. The array \<^verbatim>\<open>methods\<close> holds references, so the descriptors
  live in a heap, addressed by numbers, and the same descriptor may be listed more than
  once. The hook reads the module instance and writes to its own object only; what else
  a hook might touch is not part of the model.
\<close>

record 'm descriptor =
  rpcMethod :: jsval
  parameters :: jsval
  beforeExecution :: "'m \<Rightarrow> jsval \<times> jsval \<Rightarrow> jsval \<times> jsval"

text \<open>
  The body of \<^verbatim>\<open>methods.forEach\<close>, on the descriptor at address \<open>a\<close>: the hook runs on
  the object, then \<^verbatim>\<open>method.rpcMethod\<close> and \<^verbatim>\<open>method.parameters\<close> are read back from it
  and mapped.
\<close>

definition each :: "'e deps \<Rightarrow> 'm \<Rightarrow> nat \<Rightarrow> jsval list \<times> (nat \<Rightarrow> 'm descriptor) \<times> 'e state \<Rightarrow> jsval list \<times> (nat \<Rightarrow> 'm descriptor) \<times> 'e state" where
  "each D moduleInstance a acc =
     (let (payload, heap, s) = acc;
          method = heap a;
          (m, p) = beforeExecution method moduleInstance (rpcMethod method, parameters method);
          heap1 = heap(a := method\<lparr>rpcMethod := m, parameters := p\<rparr>);
          s1 = log (BeforeExecution a) s;
          (request, s2) = mapped D (rpcMethod (heap1 a)) (parameters (heap1 a)) s1
      in (payload @ [JObject request], heap1, s2))"

fun forEach :: "'e deps \<Rightarrow> 'm \<Rightarrow> nat list \<Rightarrow> jsval list \<times> (nat \<Rightarrow> 'm descriptor) \<times> 'e state \<Rightarrow> jsval list \<times> (nat \<Rightarrow> 'm descriptor) \<times> 'e state" where
  "forEach D moduleInstance [] acc = acc"
| "forEach D moduleInstance (a # as) acc =
     forEach D moduleInstance as (each D moduleInstance a acc)"

text \<open>\<open>sendBatch\<close> returns the heap with the descriptors as the hooks left them, the state and the promise.\<close>

definition sendBatch :: "'e deps \<Rightarrow> nat list \<Rightarrow> 'm \<Rightarrow> (jsval \<times> jsval) list \<Rightarrow> (nat \<Rightarrow> 'm descriptor) \<times> 'e state \<Rightarrow> (nat \<Rightarrow> 'm descriptor) \<times> 'e state \<times> promise" where
  "sendBatch D methods moduleInstance firings hs =
     (let (payload, heap1, s1) = forEach D moduleInstance methods ([], fst hs, snd hs);
          (s2, p) = sendPayload D (Batch payload) firings s1
      in (heap1, s2, p))"

section \<open>Auxiliary notions\<close>

text \<open>The calls that settle a promise.\<close>

fun is_settlement :: "call \<Rightarrow> bool" where
  "is_settlement (Resolve v) = True"
| "is_settlement (Reject e) = True"
| "is_settlement c = False"

text \<open>The function objects that \<^verbatim>\<open>bind\<close> made.\<close>

fun is_bound :: "fn \<Rightarrow> bool" where
  "is_bound (Bound h k) = True"
| "is_bound (Method h) = False"

text \<open>
  Modelled from the spec: the Response Validator, whose code is in another file. Section 7
  has it produce a validation error for a malformed response or one that carries an
  RPC-level error. \<open>flags_malformed\<close> is the part of that contract \<open>send\<close> relies on:
  \<^verbatim>\<open>null\<close> and \<^verbatim>\<open>undefined\<close>, which are no response objects, are answered with an
  \<^verbatim>\<open>Error\<close>. \<open>example_validate\<close> is a validator of that kind: an \<^verbatim>\<open>Error\<close> for whatever
  is no response object, for a truthy \<^verbatim>\<open>error\<close> property and for a missing \<^verbatim>\<open>result\<close>,
  and \<^verbatim>\<open>true\<close> otherwise.
\<close>

definition flags_malformed :: "'e deps \<Rightarrow> bool" where
  "flags_malformed D =
     (instanceofError (validate D JNull) \<and> instanceofError (validate D JUndefined))"

fun example_validate :: "jsval \<Rightarrow> jsval" where
  "example_validate (JObject kvs) =
     (if (case map_of kvs ''error'' of None \<Rightarrow> False | Some e \<Rightarrow> truthy e)
      then JError ''Node error''
      else if (case map_of kvs ''result'' of None \<Rightarrow> JUndefined | Some v \<Rightarrow> v) = JUndefined
      then JError ''Undefined JSON-RPC result''
      else JBool True)"
| "example_validate response = JError ''Validation error: Response should be of type Object''"

text \<open>
  One concrete choice of the collaborators, for evaluating the provider: token strings,
  a superclass without listeners of its own, a mapper that numbers its requests, and the
  validator above. \<open>falsy_deps\<close> has another validator in its place, not the program's:
  one that keeps the contract but answers every object with the falsy success indicator
  \<^verbatim>\<open>0\<close>, to show what \<open>send\<close> makes of such a value. \<open>fresh\<close> is a provider whose transport has no
  listener yet, and \<open>appending\<close> a descriptor whose hook appends \<^verbatim>\<open>1\<close> to its parameters.
\<close>

definition example_deps :: "unit deps" where
  "example_deps =
     \<lparr>SOCKET_MESSAGE = ''socket_message'', SOCKET_ERROR = ''socket_error'',
      SOCKET_CONNECT = ''socket_connect'', SOCKET_READY = ''socket_ready'',
      SOCKET_CLOSE = ''socket_close'',
      super_removeAllListeners = (\<lambda>event e. e),
      toPayload = (\<lambda>n method params.
        [(''jsonrpc'', JStr ''2.0''), (''id'', JNum n), (''method'', method), (''params'', params)]),
      validate = example_validate\<rparr>"

definition falsy_deps :: "unit deps" where
  "falsy_deps = example_deps\<lparr>validate := (\<lambda>response. case response of
       JObject kvs \<Rightarrow> JNum 0
     | _ \<Rightarrow> JError ''Validation error: Response should be of type Object'')\<rparr>"

definition appending :: "unit descriptor" where
  "appending =
     \<lparr>rpcMethod = JStr ''eth_call'', parameters = JArray [],
      beforeExecution = (\<lambda>moduleInstance (m, p).
        (m, case p of JArray xs \<Rightarrow> JArray (xs @ [JNum 1]) | _ \<Rightarrow> p))\<rparr>"

definition fresh :: "unit state" where
  "fresh = \<lparr>connection = \<lparr>listeners = [], isConnected = True\<rparr>, emitter = (),
            nextFunction = 0, messageId = 0, trace = []\<rparr>"

section \<open>How the operations act on the state\<close>

lemma log_fields [simp]:
  "trace (log c s) = trace s @ [c]"
  "connection (log c s) = connection s"
  "emitter (log c s) = emitter s"
  "nextFunction (log c s) = nextFunction s"
  "messageId (log c s) = messageId s"
  by (simp_all add: log_def)

lemma on_bound_fields [simp]:
  "listeners (connection (on_bound name h s)) =
     listeners (connection s) @ [(name, Bound h (nextFunction s))]"
  "isConnected (connection (on_bound name h s)) = isConnected (connection s)"
  "nextFunction (on_bound name h s) = Suc (nextFunction s)"
  "trace (on_bound name h s) = trace s @ [On name (Bound h (nextFunction s))]"
  "emitter (on_bound name h s) = emitter s"
  "messageId (on_bound name h s) = messageId s"
  by (simp_all add: on_bound_def connection_on_def Let_def)

lemma removeListener_fields [simp]:
  "listeners (connection (removeListener name h s)) =
     rev (remove1 (name, Method h) (rev (listeners (connection s))))"
  "isConnected (connection (removeListener name h s)) = isConnected (connection s)"
  "nextFunction (removeListener name h s) = nextFunction s"
  "trace (removeListener name h s) = trace s @ [RemoveListener name (Method h)]"
  "emitter (removeListener name h s) = emitter s"
  "messageId (removeListener name h s) = messageId s"
  by (simp_all add: removeListener_def connection_removeListener_def)

lemma removeAllListeners_undefined:
  "removeAllListeners D JUndefined s =
     log (SuperRemoveAllListeners JUndefined)
       (s\<lparr>emitter := super_removeAllListeners D JUndefined (emitter s)\<rparr>)"
  by (simp add: removeAllListeners_def)

text \<open>
  Whatever the token, the calls of \<open>removeAllListeners\<close> end with the call of the
  superclass and settle nothing.
\<close>

lemma removeAllListeners_trace:
  "\<exists>before. trace (removeAllListeners D event s) =
       trace s @ before @ [SuperRemoveAllListeners event]
     \<and> filter is_settlement before = []"
  by (auto simp add: removeAllListeners_def Let_def)

lemma sendPayload_once:
  "sendPayload D payload [(error, response)] s =
     (log (if truthy error then Reject error else Resolve response)
        (removeAllListeners D (payload_id payload) (log (Send payload) s)),
      if truthy error then Rejected error else Resolved response)"
  by (simp add: sendPayload_def Let_def)

lemma send_outcome:
  "snd (send D method params [(error, response)] s) =
     (if truthy error then Rejected error else validated D response)"
  by (simp add: send_def mapped_def sendPayload_once split: prod.splits)

lemma getProp_result:
  "response \<noteq> JNull \<Longrightarrow> response \<noteq> JUndefined
     \<Longrightarrow> \<exists>result. getProp response name = Inr result"
  by (cases response) simp_all

lemma each_eq:
  fixes moduleInstance :: 'm
  defines "hook \<equiv> \<lambda>(h :: nat \<Rightarrow> 'm descriptor) a.
     h(a := (h a)\<lparr>rpcMethod :=
                    fst (beforeExecution (h a) moduleInstance (rpcMethod (h a), parameters (h a))),
                  parameters :=
                    snd (beforeExecution (h a) moduleInstance (rpcMethod (h a), parameters (h a)))\<rparr>)"
  shows "each D moduleInstance a (payload, heap, s) =
     (payload @ [JObject (toPayload D (messageId s)
                   (rpcMethod (hook heap a a)) (parameters (hook heap a a)))],
      hook heap a,
      s\<lparr>messageId := messageId s + 1,
        trace := trace s @
          [BeforeExecution a,
           ToPayload (rpcMethod (hook heap a a)) (parameters (hook heap a a))]\<rparr>)"
  by (simp add: each_def mapped_def log_def hook_def Let_def split: prod.splits)

lemma upt_0_Suc: "[0..<Suc n] = 0 # map Suc [0..<n]"
  by (simp add: upt_conv_Cons map_Suc_upt del: upt_Suc)

text \<open>
  The loop of \<open>sendBatch\<close>: the entry it appends for position \<open>k\<close> is mapped from the
  descriptor as the hooks of the positions up to \<open>k\<close> have left it.
\<close>

lemma forEach_eq:
  fixes moduleInstance :: 'm
  defines "hook \<equiv> \<lambda>(h :: nat \<Rightarrow> 'm descriptor) a.
     h(a := (h a)\<lparr>rpcMethod :=
                    fst (beforeExecution (h a) moduleInstance (rpcMethod (h a), parameters (h a))),
                  parameters :=
                    snd (beforeExecution (h a) moduleInstance (rpcMethod (h a), parameters (h a)))\<rparr>)"
  shows "forEach D moduleInstance as (payload, heap, s) =
     (payload @
        map (\<lambda>k. JObject (toPayload D (messageId s + int k)
               (rpcMethod (foldl hook heap (take (Suc k) as) (as ! k)))
               (parameters (foldl hook heap (take (Suc k) as) (as ! k)))))
          [0..<length as],
      foldl hook heap as,
      s\<lparr>messageId := messageId s + int (length as),
        trace := trace s @
          concat (map (\<lambda>k. [BeforeExecution (as ! k),
                    ToPayload (rpcMethod (foldl hook heap (take (Suc k) as) (as ! k)))
                      (parameters (foldl hook heap (take (Suc k) as) (as ! k)))])
            [0..<length as])\<rparr>)"
proof (induction as arbitrary: payload heap s)
  case Nil
  show ?case by simp
next
  case (Cons a as)
  have body: "each D moduleInstance a (payload, heap, s) =
     (payload @ [JObject (toPayload D (messageId s)
                   (rpcMethod (hook heap a a)) (parameters (hook heap a a)))],
      hook heap a,
      s\<lparr>messageId := messageId s + 1,
        trace := trace s @
          [BeforeExecution a,
           ToPayload (rpcMethod (hook heap a a)) (parameters (hook heap a a))]\<rparr>)"
    unfolding hook_def by (rule each_eq)
  show ?case
    by (simp add: body Cons.IH upt_0_Suc o_def algebra_simps del: upt_Suc)
qed

text \<open>The validator plays no part in the completion callback.\<close>

lemma firing_validate:
  "firing (D\<lparr>validate := v\<rparr>) payload fs sp = firing D payload fs sp"
proof (induction fs arbitrary: sp)
  case Nil
  show ?case by simp
next
  case (Cons f fs)
  obtain error response where f: "f = (error, response)" by (cases f)
  obtain s p where sp: "sp = (s, p)" by (cases sp)
  show ?case by (simp add: Cons.IH f sp removeAllListeners_def)
qed

lemma sendPayload_validate:
  "sendPayload (D\<lparr>validate := v\<rparr>) payload fs s = sendPayload D payload fs s"
  by (simp add: sendPayload_def firing_validate)

section \<open>Listener registration and removal\<close>

text \<open>
  C5: one call of \<open>registerEventListeners\<close> adds five listeners to the transport and no
  other: \<^verbatim>\<open>data\<close> gets the message handler, \<^verbatim>\<open>error\<close> the error handler, \<^verbatim>\<open>connect\<close>
  two bindings of their own, the connect handler and the ready handler, and \<^verbatim>\<open>end\<close> the
  close handler. Each is a function object newly made by \<^verbatim>\<open>bind\<close>; the five calls of
  \<^verbatim>\<open>on\<close> are all the calls made.
\<close>

theorem registerEventListeners_binds:
  "listeners (connection (registerEventListeners s)) =
     listeners (connection s) @
       [(''data'', Bound onMessage (nextFunction s)),
        (''error'', Bound onError (nextFunction s + 1)),
        (''connect'', Bound onConnect (nextFunction s + 2)),
        (''connect'', Bound onReady (nextFunction s + 3)),
        (''end'', Bound onClose (nextFunction s + 4))]
   \<and> trace (registerEventListeners s) =
     trace s @
       [On ''data'' (Bound onMessage (nextFunction s)),
        On ''error'' (Bound onError (nextFunction s + 1)),
        On ''connect'' (Bound onConnect (nextFunction s + 2)),
        On ''connect'' (Bound onReady (nextFunction s + 3)),
        On ''end'' (Bound onClose (nextFunction s + 4))]"
  by (simp add: registerEventListeners_def numeral_eq_Suc)

text \<open>
  C4, the code at its failing input: on a provider whose transport has no listener,
  \<open>registerEventListeners\<close> followed by \<open>removeAllListeners\<close> with the close token
  leaves the \<^verbatim>\<open>end\<close> listener where it was. \<^verbatim>\<open>removeListener\<close> is handed the method
  \<^verbatim>\<open>this.onClose\<close>, the registry holds the function that \<^verbatim>\<open>this.onClose.bind(this)\<close>
  made, and an \<^verbatim>\<open>end\<close> event still runs the close handler.
\<close>

theorem close_listener_survives:
  "connection_emit
     (connection (removeAllListeners example_deps (JStr (SOCKET_CLOSE example_deps))
        (registerEventListeners fresh))) ''end'' = [Bound onClose 4]
   \<and> target (Bound onClose 4) = onClose
   \<and> trace (removeAllListeners example_deps (JStr (SOCKET_CLOSE example_deps))
        (registerEventListeners fresh)) =
       trace (registerEventListeners fresh) @
         [RemoveListener ''end'' (Method onClose),
          SuperRemoveAllListeners (JStr (SOCKET_CLOSE example_deps))]"
  by (simp add: removeAllListeners_def registerEventListeners_def example_deps_def fresh_def
      connection_emit_def)

text \<open>
  C7: a token that is none of the five category tokens, a request id for one, leaves the
  connection as it is (no listener of the transport is touched, and \<open>removeAllListeners\<close>
  returns a state: it has no failing branch), while the removal step of the superclass
  still runs for that token, as the only call made.
\<close>

theorem removeAllListeners_other_token:
  assumes "event \<notin> {JStr (SOCKET_MESSAGE D), JStr (SOCKET_ERROR D), JStr (SOCKET_CONNECT D),
                      JStr (SOCKET_READY D), JStr (SOCKET_CLOSE D)}"
  shows "connection (removeAllListeners D event s) = connection s
       \<and> emitter (removeAllListeners D event s) = super_removeAllListeners D event (emitter s)
       \<and> trace (removeAllListeners D event s) = trace s @ [SuperRemoveAllListeners event]"
  using assms by (simp add: removeAllListeners_def)

theorem removeAllListeners_other_token_witness:
  "JNum 7 \<notin> {JStr (SOCKET_MESSAGE example_deps), JStr (SOCKET_ERROR example_deps),
               JStr (SOCKET_CONNECT example_deps), JStr (SOCKET_READY example_deps),
               JStr (SOCKET_CLOSE example_deps)}
   \<and> connection (removeAllListeners example_deps (JNum 7) (registerEventListeners fresh)) =
       connection (registerEventListeners fresh)
   \<and> trace (removeAllListeners example_deps (JNum 7) fresh) = [SuperRemoveAllListeners (JNum 7)]"
  using removeAllListeners_other_token [of "JNum 7" example_deps "registerEventListeners fresh"]
    removeAllListeners_other_token [of "JNum 7" example_deps fresh]
  by (simp add: fresh_def)

section \<open>Connection state\<close>

text \<open>
  C8: a read of \<open>connected\<close> is the answer the transport's \<^verbatim>\<open>isConnected()\<close> gives at
  that moment; nothing is cached, so once the transport is in another state the next read
  gives that state's answer.
\<close>

theorem connected_reads_transport:
  "connected s = isConnected (connection s)
   \<and> connected (s\<lparr>connection := c\<rparr>) = isConnected c
   \<and> connected (s\<lparr>connection := (connection s)\<lparr>isConnected := b\<rparr>\<rparr>) = b"
  by (simp add: connected_def)

text \<open>
  C9: \<open>disconnect\<close> returns \<^verbatim>\<open>true\<close> and does nothing else: the state after the call is
  the state before it, so the connection and its listeners are the same and no call was
  made on any collaborator.
\<close>

theorem disconnect_constant:
  "fst (disconnect s) = True
   \<and> snd (disconnect s) = s
   \<and> connection (snd (disconnect s)) = connection s
   \<and> trace (snd (disconnect s)) = trace s"
  by (simp add: disconnect_def)

section \<open>Sending a payload\<close>

text \<open>
  C3: when the transport fires the completion callback once, \<open>sendPayload\<close> resolves with
  the raw response if the error argument is falsy and rejects with the error otherwise,
  and among the calls it makes exactly one settles the promise.
\<close>

theorem sendPayload_settles_once:
  "snd (sendPayload D payload [(error, response)] s) =
     (if truthy error then Rejected error else Resolved response)
   \<and> filter is_settlement (trace (fst (sendPayload D payload [(error, response)] s))) =
       filter is_settlement (trace s) @
         [if truthy error then Reject error else Resolve response]"
proof -
  obtain before where
    "trace (removeAllListeners D (payload_id payload) (log (Send payload) s)) =
       trace (log (Send payload) s) @ before @ [SuperRemoveAllListeners (payload_id payload)]"
    and "filter is_settlement before = []"
    using removeAllListeners_trace by blast
  then show ?thesis by (simp add: sendPayload_once)
qed

text \<open>
  C6: on a firing of the callback, with an error or without, the state is the one that
  \<open>removeAllListeners\<close> on \<^verbatim>\<open>payload.id\<close> leaves, with the settlement made after it: the
  last two calls are the removal step of the superclass for \<^verbatim>\<open>payload.id\<close> and then the
  \<^verbatim>\<open>resolve\<close> or \<^verbatim>\<open>reject\<close>. For a request object the key is the value of its \<^verbatim>\<open>id\<close>
  property (\<^verbatim>\<open>undefined\<close> if it has none), and the superclass step runs on the provider's
  own emitter with that key. For a batch, \<^verbatim>\<open>payload.id\<close> is \<^verbatim>\<open>undefined\<close>, the clean-up
  runs with that key, and the connection with its listeners is unchanged.
\<close>

theorem sendPayload_cleans_up_first:
  "fst (sendPayload D payload [(error, response)] s) =
     log (if truthy error then Reject error else Resolve response)
       (removeAllListeners D (payload_id payload) (log (Send payload) s))
   \<and> (\<exists>before. trace (fst (sendPayload D payload [(error, response)] s)) =
         trace s @ Send payload # before @
           [SuperRemoveAllListeners (payload_id payload),
            if truthy error then Reject error else Resolve response])
   \<and> (\<exists>before. trace (fst (sendPayload D (Request kvs) [(error, response)] s)) =
         trace s @ Send (Request kvs) # before @
           [SuperRemoveAllListeners
              (case map_of kvs ''id'' of None \<Rightarrow> JUndefined | Some v \<Rightarrow> v),
            if truthy error then Reject error else Resolve response])
   \<and> emitter (fst (sendPayload D (Request kvs) [(error, response)] s)) =
       super_removeAllListeners D
         (case map_of kvs ''id'' of None \<Rightarrow> JUndefined | Some v \<Rightarrow> v) (emitter s)
   \<and> payload_id (Batch entries) = JUndefined
   \<and> connection (fst (sendPayload D (Batch entries) [(error, response)] s)) = connection s
   \<and> trace (fst (sendPayload D (Batch entries) [(error, response)] s)) =
       trace s @ [Send (Batch entries), SuperRemoveAllListeners JUndefined,
                  if truthy error then Reject error else Resolve response]"
proof -
  have tail: "\<exists>before. trace (fst (sendPayload D p [(error, response)] s)) =
         trace s @ Send p # before @
           [SuperRemoveAllListeners (payload_id p),
            if truthy error then Reject error else Resolve response]" for p
  proof -
    obtain before where
      "trace (removeAllListeners D (payload_id p) (log (Send p) s)) =
         trace (log (Send p) s) @ before @ [SuperRemoveAllListeners (payload_id p)]"
      using removeAllListeners_trace by blast
    then have "trace (fst (sendPayload D p [(error, response)] s)) =
         trace s @ Send p # before @
           [SuperRemoveAllListeners (payload_id p),
            if truthy error then Reject error else Resolve response]"
      by (simp add: sendPayload_once)
    then show ?thesis by blast
  qed
  have own: "emitter (removeAllListeners D event t) =
      super_removeAllListeners D event (emitter t)" for event and t :: "'a state"
    by (simp add: removeAllListeners_def Let_def)
  show ?thesis
    using tail [of payload] tail [of "Request kvs"]
    by (simp add: sendPayload_once removeAllListeners_undefined own)
qed

text \<open>The request with id 7: the clean-up runs with the key 7, then the promise resolves.\<close>

theorem sendPayload_cleans_up_first_witness:
  "last (butlast (trace (fst (sendPayload example_deps
       (Request [(''jsonrpc'', JStr ''2.0''), (''id'', JNum 7), (''method'', JStr ''eth_call''),
                 (''params'', JArray [])])
       [(JNull, JStr ''0x'')] fresh)))) = SuperRemoveAllListeners (JNum 7)
   \<and> last (trace (fst (sendPayload example_deps
       (Request [(''jsonrpc'', JStr ''2.0''), (''id'', JNum 7), (''method'', JStr ''eth_call''),
                 (''params'', JArray [])])
       [(JNull, JStr ''0x'')] fresh))) = Resolve (JStr ''0x'')"
proof -
  obtain before where
    "trace (fst (sendPayload example_deps
       (Request [(''jsonrpc'', JStr ''2.0''), (''id'', JNum 7), (''method'', JStr ''eth_call''),
                 (''params'', JArray [])])
       [(JNull, JStr ''0x'')] fresh)) =
     trace fresh @ Send (Request [(''jsonrpc'', JStr ''2.0''), (''id'', JNum 7),
                 (''method'', JStr ''eth_call''), (''params'', JArray [])]) # before @
       [SuperRemoveAllListeners (case map_of [(''jsonrpc'', JStr ''2.0''), (''id'', JNum 7),
                 (''method'', JStr ''eth_call''), (''params'', JArray [])] ''id'' of
              None \<Rightarrow> JUndefined | Some v \<Rightarrow> v),
        if truthy JNull then Reject JNull else Resolve (JStr ''0x'')]"
    using sendPayload_cleans_up_first [of example_deps
        "Request [(''jsonrpc'', JStr ''2.0''), (''id'', JNum 7), (''method'', JStr ''eth_call''),
                 (''params'', JArray [])]" JNull "JStr ''0x''" fresh
        "[(''jsonrpc'', JStr ''2.0''), (''id'', JNum 7), (''method'', JStr ''eth_call''),
                 (''params'', JArray [])]"]
    by blast
  then show ?thesis
    by (simp add: butlast_append)
qed

section \<open>Batches\<close>

text \<open>
  C2: \<open>sendBatch\<close> goes through the methods in their order. \<open>hook h a\<close> is the heap after
  \<^verbatim>\<open>beforeExecution(moduleInstance)\<close> has run once on the descriptor at address \<open>a\<close>, and
  \<open>current k\<close> is the descriptor at position \<open>k\<close> as the hooks of the positions up to and
  including \<open>k\<close>, one call each, have left it. For every position the hook is called and
  then the descriptor as it is at that moment is mapped, before the next method has its
  turn; the array that is sent holds the mapped entries in the order of the methods; the
  descriptors keep what the hooks wrote. The promise settles with what the transport
  delivers, the response as it came when there is no error, and the validator has no
  part in any of it: \<open>sendBatch\<close> gives the same result under every validator.
\<close>

theorem sendBatch_in_order:
  fixes moduleInstance :: 'm and heap :: "nat \<Rightarrow> 'm descriptor" and methods :: "nat list"
    and D :: "'e deps" and s :: "'e state"
  defines "hook \<equiv> \<lambda>(h :: nat \<Rightarrow> 'm descriptor) a.
     h(a := (h a)\<lparr>rpcMethod :=
                    fst (beforeExecution (h a) moduleInstance (rpcMethod (h a), parameters (h a))),
                  parameters :=
                    snd (beforeExecution (h a) moduleInstance (rpcMethod (h a), parameters (h a)))\<rparr>)"
  defines "current \<equiv> \<lambda>k. foldl hook heap (take (Suc k) methods) (methods ! k)"
  defines "entries \<equiv> map (\<lambda>k. JObject (toPayload D (messageId s + int k)
                          (rpcMethod (current k)) (parameters (current k)))) [0..<length methods]"
  shows "sendBatch D methods moduleInstance [(error, response)] (heap, s) =
     (foldl hook heap methods,
      s\<lparr>emitter := super_removeAllListeners D JUndefined (emitter s),
        messageId := messageId s + int (length methods),
        trace := trace s @
          concat (map (\<lambda>k. [BeforeExecution (methods ! k),
                              ToPayload (rpcMethod (current k)) (parameters (current k))])
                    [0..<length methods]) @
          [Send (Batch entries), SuperRemoveAllListeners JUndefined,
           if truthy error then Reject error else Resolve response]\<rparr>,
      if truthy error then Rejected error else Resolved response)
   \<and> sendBatch (D\<lparr>validate := v\<rparr>) methods moduleInstance firings (heap, s) =
       sendBatch D methods moduleInstance firings (heap, s)"
proof -
  have loop: "forEach D moduleInstance methods ([], heap, s) =
     (entries, foldl hook heap methods,
      s\<lparr>messageId := messageId s + int (length methods),
        trace := trace s @
          concat (map (\<lambda>k. [BeforeExecution (methods ! k),
                              ToPayload (rpcMethod (current k)) (parameters (current k))])
                    [0..<length methods])\<rparr>)"
    unfolding entries_def current_def hook_def by (simp add: forEach_eq)
  have same: "forEach (D\<lparr>validate := v\<rparr>) moduleInstance methods ([], heap, s) =
      forEach D moduleInstance methods ([], heap, s)"
    by (simp add: forEach_eq)
  have "sendBatch (D\<lparr>validate := v\<rparr>) methods moduleInstance firings (heap, s) =
       sendBatch D methods moduleInstance firings (heap, s)"
    by (simp add: sendBatch_def same sendPayload_validate)
  then show ?thesis
    by (simp add: sendBatch_def loop sendPayload_once removeAllListeners_undefined log_def)
qed

text \<open>
  The same descriptor listed twice: its hook runs twice on the one object, so the first
  entry is mapped with the parameters \<^verbatim>\<open>[1]\<close> and the second with \<^verbatim>\<open>[1, 1]\<close>.
\<close>

theorem sendBatch_in_order_witness:
  "(case sendBatch example_deps [0, 0] () [(JNull, JArray [])] (\<lambda>a. appending, fresh) of
      (heap, s, p) \<Rightarrow>
        parameters (heap 0) = JArray [JNum 1, JNum 1]
        \<and> trace s =
          [BeforeExecution 0, ToPayload (JStr ''eth_call'') (JArray [JNum 1]),
           BeforeExecution 0, ToPayload (JStr ''eth_call'') (JArray [JNum 1, JNum 1]),
           Send (Batch
             [JObject [(''jsonrpc'', JStr ''2.0''), (''id'', JNum 0),
                       (''method'', JStr ''eth_call''), (''params'', JArray [JNum 1])],
              JObject [(''jsonrpc'', JStr ''2.0''), (''id'', JNum 1),
                       (''method'', JStr ''eth_call''), (''params'', JArray [JNum 1, JNum 1])]]),
           SuperRemoveAllListeners JUndefined,
           Resolve (JArray [])]
        \<and> p = Resolved (JArray []))"
proof -
  note run = sendBatch_in_order [where D = example_deps and methods = "[0, 0]"
      and moduleInstance = "()" and error = JNull and response = "JArray []"
      and heap = "\<lambda>a. appending" and s = fresh, THEN conjunct1]
  show ?thesis
    unfolding run by (simp add: example_deps_def fresh_def appending_def)
qed

section \<open>Single requests\<close>

text \<open>
  C1: for every response that the transport delivers (the callback reports no error),
  \<open>send\<close> rejects with exactly the validator's error whenever the validator returns one,
  whatever the response is; and under a validator that answers \<^verbatim>\<open>null\<close> and \<^verbatim>\<open>undefined\<close>
  with an error, a response it classifies as valid has a \<^verbatim>\<open>result\<close> to read and \<open>send\<close>
  resolves with exactly that.
\<close>

theorem send_result:
  assumes "\<not> truthy error"
  shows "(instanceofError (validate D response) \<longrightarrow>
            snd (send D method params [(error, response)] s) = Rejected (validate D response))
       \<and> (flags_malformed D \<longrightarrow> \<not> instanceofError (validate D response) \<longrightarrow>
            (\<exists>result. getProp response ''result'' = Inr result
               \<and> snd (send D method params [(error, response)] s) = Resolved result))"
proof (intro conjI impI)
  assume "instanceofError (validate D response)"
  with assms show
    "snd (send D method params [(error, response)] s) = Rejected (validate D response)"
    by (simp add: send_outcome validated_def Let_def)
next
  assume contract: "flags_malformed D" and valid: "\<not> instanceofError (validate D response)"
  then have "response \<noteq> JNull" and "response \<noteq> JUndefined"
    by (auto simp add: flags_malformed_def)
  then obtain result where r: "getProp response ''result'' = Inr result"
    using getProp_result by blast
  with assms valid have "snd (send D method params [(error, response)] s) = Resolved result"
    by (simp add: send_outcome validated_def Let_def)
  with r show "\<exists>result. getProp response ''result'' = Inr result
      \<and> snd (send D method params [(error, response)] s) = Resolved result"
    by blast
qed

text \<open>
  A valid response resolves with its \<^verbatim>\<open>result\<close>; a response with an \<^verbatim>\<open>error\<close> and the
  response \<^verbatim>\<open>null\<close> are rejected with the validator's error.
\<close>

theorem send_result_witness:
  "\<not> truthy JNull
   \<and> flags_malformed example_deps
   \<and> \<not> instanceofError
        (validate example_deps (JObject [(''id'', JNum 0), (''result'', JStr ''0x10'')]))
   \<and> getProp (JObject [(''id'', JNum 0), (''result'', JStr ''0x10'')]) ''result''
       = Inr (JStr ''0x10'')
   \<and> snd (send example_deps (JStr ''eth_getBalance'') (JArray [JStr ''0xabc'', JStr ''latest''])
            [(JNull, JObject [(''id'', JNum 0), (''result'', JStr ''0x10'')])] fresh)
       = Resolved (JStr ''0x10'')
   \<and> instanceofError
        (validate example_deps (JObject [(''id'', JNum 0), (''error'', JStr ''boom'')]))
   \<and> snd (send example_deps (JStr ''eth_getBalance'') (JArray [JStr ''0xabc'', JStr ''latest''])
            [(JNull, JObject [(''id'', JNum 0), (''error'', JStr ''boom'')])] fresh)
       = Rejected (JError ''Node error'')
   \<and> snd (send example_deps (JStr ''eth_getBalance'') (JArray [JStr ''0xabc'', JStr ''latest''])
            [(JNull, JNull)] fresh)
       = Rejected (JError ''Validation error: Response should be of type Object'')"
  using send_result [of JNull example_deps
      "JObject [(''id'', JNum 0), (''result'', JStr ''0x10'')]"
      "JStr ''eth_getBalance''" "JArray [JStr ''0xabc'', JStr ''latest'']" fresh]
    send_result [of JNull example_deps "JObject [(''id'', JNum 0), (''error'', JStr ''boom'')]"
      "JStr ''eth_getBalance''" "JArray [JStr ''0xabc'', JStr ''latest'']" fresh]
    send_result [of JNull example_deps JNull
      "JStr ''eth_getBalance''" "JArray [JStr ''0xabc'', JStr ''latest'']" fresh]
  by (simp add: example_deps_def flags_malformed_def)

text \<open>
  C10, as amended: when the callback reports an error, \<open>send\<close> rejects with that error and
  the validator is not asked. When it reports none, \<open>send\<close> rejects with exactly the
  validator's return value whenever that is an instance of \<^verbatim>\<open>Error\<close>; and under a
  validator that answers \<^verbatim>\<open>null\<close> and \<^verbatim>\<open>undefined\<close> with an error, \<open>send\<close> rejects if and
  only if the return value is an instance of \<^verbatim>\<open>Error\<close>, and every other return value,
  falsy ones included, makes it resolve with the response's \<^verbatim>\<open>result\<close>, which is
  \<^verbatim>\<open>undefined\<close> when the response object has no such property.
\<close>

theorem send_rejects_iff_error:
  "(truthy error \<longrightarrow> snd (send D method params [(error, response)] s) = Rejected error)
   \<and> (\<not> truthy error \<longrightarrow> instanceofError (validate D response) \<longrightarrow>
        snd (send D method params [(error, response)] s) = Rejected (validate D response))
   \<and> (\<not> truthy error \<longrightarrow> flags_malformed D \<longrightarrow>
        ((\<exists>e. snd (send D method params [(error, response)] s) = Rejected e)
           \<longleftrightarrow> instanceofError (validate D response))
        \<and> (\<not> instanceofError (validate D response) \<longrightarrow>
             (\<exists>result. getProp response ''result'' = Inr result
                \<and> snd (send D method params [(error, response)] s) = Resolved result
                \<and> (\<forall>kvs. response = JObject kvs \<longrightarrow> map_of kvs ''result'' = None
                      \<longrightarrow> result = JUndefined))))"
proof (intro conjI impI)
  assume "truthy error"
  then show "snd (send D method params [(error, response)] s) = Rejected error"
    by (simp add: send_outcome)
next
  assume "\<not> truthy error" and "instanceofError (validate D response)"
  then show
    "snd (send D method params [(error, response)] s) = Rejected (validate D response)"
    by (simp add: send_outcome validated_def Let_def)
next
  assume ok: "\<not> truthy error" and contract: "flags_malformed D"
  have "response \<noteq> JNull \<and> response \<noteq> JUndefined"
    if "\<not> instanceofError (validate D response)"
    using that contract by (auto simp add: flags_malformed_def)
  then have "\<exists>result. getProp response ''result'' = Inr result"
    if "\<not> instanceofError (validate D response)"
    using that getProp_result by blast
  then show "(\<exists>e. snd (send D method params [(error, response)] s) = Rejected e)
      \<longleftrightarrow> instanceofError (validate D response)"
    using ok by (auto simp add: send_outcome validated_def Let_def)
next
  assume ok: "\<not> truthy error" and contract: "flags_malformed D"
    and valid: "\<not> instanceofError (validate D response)"
  then have "response \<noteq> JNull" and "response \<noteq> JUndefined"
    by (auto simp add: flags_malformed_def)
  then obtain result where r: "getProp response ''result'' = Inr result"
    using getProp_result by blast
  then have "snd (send D method params [(error, response)] s) = Resolved result"
    using ok valid by (simp add: send_outcome validated_def Let_def)
  moreover have "\<forall>kvs. response = JObject kvs \<longrightarrow> map_of kvs ''result'' = None
      \<longrightarrow> result = JUndefined"
    using r by auto
  ultimately show "\<exists>result. getProp response ''result'' = Inr result
      \<and> snd (send D method params [(error, response)] s) = Resolved result
      \<and> (\<forall>kvs. response = JObject kvs \<longrightarrow> map_of kvs ''result'' = None
            \<longrightarrow> result = JUndefined)"
    using r by blast
qed

text \<open>
  A validator with the falsy success indicator \<^verbatim>\<open>0\<close>: a response object without
  \<^verbatim>\<open>result\<close> resolves with \<^verbatim>\<open>undefined\<close>, a transport error rejects with that error, and
  a response that is no object rejects with the validator's error. Under the validator of
  \<open>example_deps\<close> a valid response resolves with its \<^verbatim>\<open>result\<close>.
\<close>

theorem send_rejects_iff_error_witness:
  "\<not> truthy JNull
   \<and> flags_malformed falsy_deps
   \<and> validate falsy_deps (JObject [(''id'', JNum 0)]) = JNum 0
   \<and> \<not> truthy (JNum 0) \<and> \<not> instanceofError (JNum 0)
   \<and> map_of [(''id'', JNum 0)] ''result'' = None
   \<and> snd (send falsy_deps (JStr ''eth_getBalance'') (JArray [])
            [(JNull, JObject [(''id'', JNum 0)])] fresh) = Resolved JUndefined
   \<and> truthy (JError ''boom'')
   \<and> snd (send falsy_deps (JStr ''eth_getBalance'') (JArray [])
            [(JError ''boom'', JObject [(''id'', JNum 0)])] fresh) = Rejected (JError ''boom'')
   \<and> instanceofError (validate falsy_deps (JStr ''0x10''))
   \<and> snd (send falsy_deps (JStr ''eth_getBalance'') (JArray [])
            [(JNull, JStr ''0x10'')] fresh) = Rejected (validate falsy_deps (JStr ''0x10''))
   \<and> flags_malformed example_deps
   \<and> snd (send example_deps (JStr ''eth_getBalance'') (JArray [])
            [(JNull, JObject [(''id'', JNum 0), (''result'', JStr ''0x10'')])] fresh)
       = Resolved (JStr ''0x10'')"
  using send_rejects_iff_error [of JNull falsy_deps "JStr ''eth_getBalance''" "JArray []"
      "JObject [(''id'', JNum 0)]" fresh]
    send_rejects_iff_error [of "JError ''boom''" falsy_deps "JStr ''eth_getBalance''" "JArray []"
      "JObject [(''id'', JNum 0)]" fresh]
    send_rejects_iff_error [of JNull falsy_deps "JStr ''eth_getBalance''" "JArray []"
      "JStr ''0x10''" fresh]
    send_rejects_iff_error [of JNull example_deps "JStr ''eth_getBalance''" "JArray []"
      "JObject [(''id'', JNum 0), (''result'', JStr ''0x10'')]" fresh]
  by (simp add: falsy_deps_def example_deps_def flags_malformed_def)

text \<open>
  C10 as stated fails: the transport calls back with an error and a response that the
  validator accepts; \<open>send\<close> rejects with the transport's error although the validator
  returns no \<^verbatim>\<open>Error\<close> for that response.
\<close>

theorem send_transport_error_rejects:
  "validate example_deps (JObject [(''id'', JNum 0), (''result'', JStr ''0x10'')]) = JBool True
   \<and> \<not> instanceofError
        (validate example_deps (JObject [(''id'', JNum 0), (''result'', JStr ''0x10'')]))
   \<and> snd (send example_deps (JStr ''eth_getBalance'') (JArray [JStr ''0xabc'', JStr ''latest''])
            [(JError ''boom'', JObject [(''id'', JNum 0), (''result'', JStr ''0x10'')])] fresh)
       = Rejected (JError ''boom'')"
  by (simp add: send_outcome example_deps_def)

section \<open>Further properties\<close>

lemma filter_remove1_other:
  "\<not> P x \<Longrightarrow> filter P (remove1 x xs) = filter P xs"
  by (induction xs) auto

lemma filter_bound_removed:
  "filter (\<lambda>l. is_bound (snd l)) (rev (remove1 (name, Method h) (rev xs))) =
   filter (\<lambda>l. is_bound (snd l)) xs"
  by (simp add: filter_remove1_other rev_filter [symmetric])

text \<open>
  X1: whatever the token and whatever the registry, \<open>removeAllListeners\<close> leaves every
  listener that was made by \<^verbatim>\<open>bind\<close> in place, in the same order: the only listener
  it can take away is a method registered unbound, and \<open>registerEventListeners\<close>
  registers none.
\<close>

theorem bound_listeners_stay:
  "filter (\<lambda>l. is_bound (snd l)) (listeners (connection (removeAllListeners D event s))) =
   filter (\<lambda>l. is_bound (snd l)) (listeners (connection s))"
  by (simp add: removeAllListeners_def Let_def filter_bound_removed)

text \<open>
  X2: a transport that never calls back leaves the promise of \<open>sendPayload\<close> pending;
  the call of the transport's \<^verbatim>\<open>send\<close> is all that has happened.
\<close>

theorem sendPayload_never_called_back:
  "sendPayload D payload [] s = (log (Send payload) s, Pending)"
  by (simp add: sendPayload_def)

text \<open>
  X3: the provider does not itself keep the callback from firing twice. On a second
  firing the promise keeps its first settlement, while the clean-up runs again and
  \<^verbatim>\<open>resolve\<close> or \<^verbatim>\<open>reject\<close> is called a second time.
\<close>

theorem sendPayload_second_firing:
  "snd (sendPayload D payload [(error, response), (error', response')] s) =
     snd (sendPayload D payload [(error, response)] s)
   \<and> filter is_settlement
       (trace (fst (sendPayload D payload [(error, response), (error', response')] s))) =
       filter is_settlement (trace s) @
         [if truthy error then Reject error else Resolve response,
          if truthy error' then Reject error' else Resolve response']"
proof -
  have quiet: "filter is_settlement (trace (removeAllListeners D ev t)) =
      filter is_settlement (trace t)" for ev and t :: "'a state"
    using removeAllListeners_trace [of D ev t] by auto
  show ?thesis
    by (simp add: sendPayload_def Let_def quiet)
qed

text \<open>
  X4: two calls of \<open>registerEventListeners\<close> with no removal in between leave every
  binding twice in the registry, ten listeners in all.
\<close>

theorem registerEventListeners_twice:
  "listeners (connection (registerEventListeners (registerEventListeners s))) =
     listeners (connection s) @
       [(''data'', Bound onMessage (nextFunction s)),
        (''error'', Bound onError (nextFunction s + 1)),
        (''connect'', Bound onConnect (nextFunction s + 2)),
        (''connect'', Bound onReady (nextFunction s + 3)),
        (''end'', Bound onClose (nextFunction s + 4)),
        (''data'', Bound onMessage (nextFunction s + 5)),
        (''error'', Bound onError (nextFunction s + 6)),
        (''connect'', Bound onConnect (nextFunction s + 7)),
        (''connect'', Bound onReady (nextFunction s + 8)),
        (''end'', Bound onClose (nextFunction s + 9))]"
  by (simp add: registerEventListeners_def numeral_eq_Suc)

end
